theory Spec2Isabelle
  imports Main
begin

section \<open>Module-call addresses (addrs/module\_call.go)\<close>

text \<open>
  Go strings are byte sequences; they are modelled as \<open>string\<close> (a list of characters) and
  \<^verbatim>\<open>+\<close> on strings as \<open>@\<close>.  The interface \<^verbatim>\<open>InstanceKey\<close> is declared
  outside the two source files.  \<^verbatim>\<open>NoKey\<close> is its absent value, so a key is an
  \<open>option\<close> whose \<open>None\<close> is \<^verbatim>\<open>NoKey\<close>; the rendering of a present key (its
  \<^verbatim>\<open>String()\<close> method, which \<^verbatim>\<open>%s\<close> calls) is the parameter \<open>keyString\<close> of
  the functions that format a key.
\<close>

datatype ModuleCall = ModuleCall (ModuleCall_Name: string)

datatype 'k ModuleCallInstance =
  ModuleCallInstance (Instance_Call: ModuleCall) (Instance_Key: "'k option")

datatype 'k ModuleCallOutput =
  ModuleCallOutput (Output_Call: "'k ModuleCallInstance") (Output_Name: string)

definition NoKey :: "'k option" where
  "NoKey = None"

definition ModuleCall_String :: "ModuleCall \<Rightarrow> string" where
  "ModuleCall_String c = ''module.'' @ ModuleCall_Name c"

definition Instance :: "ModuleCall \<Rightarrow> 'k option \<Rightarrow> 'k ModuleCallInstance" where
  "Instance c key = ModuleCallInstance c key"

definition ModuleCallInstance_String :: "('k \<Rightarrow> string) \<Rightarrow> 'k ModuleCallInstance \<Rightarrow> string" where
  "ModuleCallInstance_String keyString c =
     (case Instance_Key c of
        None \<Rightarrow> ModuleCall_String (Instance_Call c)
      | Some k \<Rightarrow> ''module.'' @ ModuleCall_Name (Instance_Call c) @ keyString k)"

definition Output :: "'k ModuleCallInstance \<Rightarrow> string \<Rightarrow> 'k ModuleCallOutput" where
  "Output c name = ModuleCallOutput c name"

definition ModuleCallOutput_String :: "('k \<Rightarrow> string) \<Rightarrow> 'k ModuleCallOutput \<Rightarrow> string" where
  "ModuleCallOutput_String keyString co =
     ModuleCallInstance_String keyString (Output_Call co) @ ''.'' @ Output_Name co"

section \<open>The configuration variable vertex (GraphNodeConfigVariable)\<close>

text \<open>
  \<^verbatim>\<open>config.Variable\<close> and \<^verbatim>\<open>config.RawConfig\<close> belong to another package; the
  vertex reads one field of each.  \<open>Variables\<close> holds the values that
  \<^verbatim>\<open>range n.Value.Variables\<close> yields, in the order of the iteration; \<open>'iv\<close> is the
  type of an interpolated variable.  The pointer \<^verbatim>\<open>Value\<close> is tested against nil by
  the code and is an \<open>option\<close>; \<^verbatim>\<open>Variable\<close> is dereferenced without a test by
  \<^verbatim>\<open>Name\<close> and \<^verbatim>\<open>VariableName\<close>, and the vertex holds the declaration itself.
  \<open>'t\<close> stands for \<^verbatim>\<open>*module.Tree\<close>.
\<close>

record config_Variable =
  Variable_Name :: string

record 'iv RawConfig =
  Variables :: "'iv list"

record ('iv, 't) GraphNodeConfigVariable =
  Variable :: config_Variable
  Module :: string
  Value :: "'iv RawConfig option"
  ModuleTree :: 't
  ModulePath :: "string list"

text \<open>
  A \<^verbatim>\<open>dag.Vertex\<close> is any value.  The destroy-edge decision asks it for one thing,
  whether it implements \<^verbatim>\<open>GraphNodeCountDependent\<close>; \<open>CountDependentOn\<close> is
  \<open>None\<close> when the type assertion fails and the result of the method otherwise.
\<close>

record dag_Vertex =
  VertexName :: string
  CountDependentOn :: "string list option"

definition Name :: "('iv, 't) GraphNodeConfigVariable \<Rightarrow> string" where
  "Name n = ''var.'' @ Variable_Name (Variable n)"

definition DependableName :: "('iv, 't) GraphNodeConfigVariable \<Rightarrow> string list" where
  "DependableName n = [Name n]"

definition RemoveIfNotTargeted :: "('iv, 't) GraphNodeConfigVariable \<Rightarrow> bool" where
  "RemoveIfNotTargeted n = True"

text \<open>
  The loop of \<^verbatim>\<open>DependentOn\<close>: \<open>result\<close> is the slice built so far.
  \<^verbatim>\<open>varNameForVar\<close> is defined outside the source files and is a parameter; it
  returns the empty string for a reference it has no name for.
\<close>

fun DependentOn_loop :: "('iv \<Rightarrow> string) \<Rightarrow> 'iv list \<Rightarrow> string list \<Rightarrow> string list" where
  "DependentOn_loop varNameForVar [] result = result"
| "DependentOn_loop varNameForVar (v # vars) result =
     (let vn = varNameForVar v in
      if vn \<noteq> [] then DependentOn_loop varNameForVar vars (result @ [vn])
      else DependentOn_loop varNameForVar vars result)"

definition DependentOn :: "('iv \<Rightarrow> string) \<Rightarrow> ('iv, 't) GraphNodeConfigVariable \<Rightarrow> string list" where
  "DependentOn varNameForVar n =
     (case Value n of
        None \<Rightarrow> []
      | Some val \<Rightarrow> DependentOn_loop varNameForVar (Variables val) [])"

definition VariableName :: "('iv, 't) GraphNodeConfigVariable \<Rightarrow> string" where
  "VariableName n = Variable_Name (Variable n)"

text \<open>
  The two nested loops of \<^verbatim>\<open>DestroyEdgeInclude\<close>, each returning at the first match.
  The calls of \<^verbatim>\<open>log.Printf\<close> write to the log only and are left out.
\<close>

fun DestroyEdgeInclude_inner :: "string \<Rightarrow> string list \<Rightarrow> bool" where
  "DestroyEdgeInclude_inner d [] = False"
| "DestroyEdgeInclude_inner d (d2 # ds2) =
     (if d = d2 then True else DestroyEdgeInclude_inner d ds2)"

fun DestroyEdgeInclude_outer :: "string list \<Rightarrow> string list \<Rightarrow> bool" where
  "DestroyEdgeInclude_outer [] names = False"
| "DestroyEdgeInclude_outer (d # ds) names =
     (if DestroyEdgeInclude_inner d names then True else DestroyEdgeInclude_outer ds names)"

definition DestroyEdgeInclude :: "('iv, 't) GraphNodeConfigVariable \<Rightarrow> 'z dag_Vertex_scheme \<Rightarrow> bool" where
  "DestroyEdgeInclude n v =
     (case CountDependentOn v of
        None \<Rightarrow> False
      | Some cdo \<Rightarrow> DestroyEdgeInclude_outer cdo (DependableName n))"

text \<open>
  \<^verbatim>\<open>EvalTree\<close> builds a tree of evaluation nodes.  The node types are declared
  outside the source files; the datatype has one constructor for each type the function
  builds, with the fields in the order of the composite literals.  A field that holds
  a pointer to the local \<^verbatim>\<open>config\<close> or the local map \<^verbatim>\<open>variables\<close> of the call
  holds the name of that local: the nodes of one tree share the two locals.
  \<^verbatim>\<open>EvalSetVariables.Module\<close> points at the vertex's \<^verbatim>\<open>Module\<close> field and is
  modelled by the field's value.
\<close>

datatype local_var = local_config | local_variables

datatype ('iv, 't) EvalNode =
    EvalNoop
  | EvalSequence "('iv, 't) EvalNode list"
  | EvalInterpolate "'iv RawConfig" local_var
  | EvalVariableBlock local_var local_var
  | EvalCoerceMapVariable local_var "string list" 't
  | EvalTypeCheckVariable local_var "string list" 't
  | EvalSetVariables string local_var

definition EvalTree :: "('iv, 't) GraphNodeConfigVariable \<Rightarrow> ('iv, 't) EvalNode" where
  "EvalTree n =
     (case Value n of
        None \<Rightarrow> EvalNoop
      | Some val \<Rightarrow>
          EvalSequence
            [EvalInterpolate val local_config,
             EvalVariableBlock local_config local_variables,
             EvalCoerceMapVariable local_variables (ModulePath n) (ModuleTree n),
             EvalTypeCheckVariable local_variables (ModulePath n) (ModuleTree n),
             EvalSetVariables (Module n) local_variables])"

section \<open>The flattened variant (GraphNodeConfigVariableFlat)\<close>

text \<open>
  The flattened vertex embeds a pointer to the base vertex and adds \<^verbatim>\<open>PathValue\<close>.
  The embedded field, which Go names \<^verbatim>\<open>GraphNodeConfigVariable\<close> after its type, is
  \<open>Embedded\<close>.  \<^verbatim>\<open>Flatten\<close> returns the vertex with a nil error.
\<close>

record ('iv, 't) GraphNodeConfigVariableFlat =
  Embedded :: "('iv, 't) GraphNodeConfigVariable"
  PathValue :: "string list"

definition Flatten ::
  "('iv, 't) GraphNodeConfigVariable \<Rightarrow> string list \<Rightarrow> 'e + ('iv, 't) GraphNodeConfigVariableFlat" where
  "Flatten n p = Inr \<lparr>Embedded = n, PathValue = p\<rparr>"

text \<open>
  Modelled from the spec: \<^verbatim>\<open>modulePrefixList\<close> is called by
  \<^verbatim>\<open>GraphNodeConfigVariableFlat.DependentOn\<close> and defined outside the source files.
  Spec 4.5: each unflattened dependency name is prefixed with the path of the parent
  module, and with no prefix the names pass through; a prefixed name has the form
  \<^verbatim>\<open><module-path prefix>.<unflattened name>\<close>.
\<close>

definition modulePrefixList :: "string list \<Rightarrow> string \<Rightarrow> string list" where
  "modulePrefixList result prefix =
     (if prefix \<noteq> [] then map (\<lambda>v. prefix @ ''.'' @ v) result else result)"

text \<open>
  \<^verbatim>\<open>modulePrefixStr\<close>, which renders a module path as a prefix, is defined outside the
  source files as well.  It is the parameter \<open>mps\<close> of the functions that call it, and
  every theorem about them holds for every \<open>mps\<close>.
\<close>

text \<open>
  Modelled from the spec: \<^verbatim>\<open>modulePrefixStr\<close> is missing from the source files, and
  the spec calls its result the module-path prefix (4.5) without giving its form.
  Where an example needs one rendering, this one writes the segments of the path with a
  dot between them, as spec 8 writes the path of a module (\<^verbatim>\<open>root.child\<close>).
\<close>

fun modulePrefixStr :: "string list \<Rightarrow> string" where
  "modulePrefixStr [] = []"
| "modulePrefixStr [s] = s"
| "modulePrefixStr (s # t # p) = s @ ''.'' @ modulePrefixStr (t # p)"

definition Flat_Name ::
  "(string list \<Rightarrow> string) \<Rightarrow> ('iv, 't) GraphNodeConfigVariableFlat \<Rightarrow> string" where
  "Flat_Name mps n = mps (PathValue n) @ ''.'' @ Name (Embedded n)"

definition Flat_DependableName ::
  "(string list \<Rightarrow> string) \<Rightarrow> ('iv, 't) GraphNodeConfigVariableFlat \<Rightarrow> string list" where
  "Flat_DependableName mps n = [Flat_Name mps n]"

definition Flat_DependentOn ::
  "(string list \<Rightarrow> string) \<Rightarrow> ('iv \<Rightarrow> string) \<Rightarrow> ('iv, 't) GraphNodeConfigVariableFlat
     \<Rightarrow> string list" where
  "Flat_DependentOn mps varNameForVar n =
     (let prefix = (if length (PathValue n) > 2
                    then mps (take (length (PathValue n) - 1) (PathValue n)) else [])
      in modulePrefixList (DependentOn varNameForVar (Embedded n)) prefix)"

definition Flat_Path :: "('iv, 't) GraphNodeConfigVariableFlat \<Rightarrow> string list" where
  "Flat_Path n =
     (if length (PathValue n) > 2 then take (length (PathValue n) - 1) (PathValue n) else [])"

text \<open>
  The flattened vertex declares no \<^verbatim>\<open>DestroyEdgeInclude\<close> of its own.  Go promotes the
  method of the embedded vertex, and a promoted method runs with the embedded vertex
  as its receiver, so the \<^verbatim>\<open>n.DependableName()\<close> in its body is the base vertex's.
\<close>

definition Flat_DestroyEdgeInclude ::
  "('iv, 't) GraphNodeConfigVariableFlat \<Rightarrow> 'z dag_Vertex_scheme \<Rightarrow> bool" where
  "Flat_DestroyEdgeInclude n v = DestroyEdgeInclude (Embedded n) v"

section \<open>Running an evaluation tree\<close>

text \<open>
  Modelled from the spec: the collaborators that the steps of the pipeline consume are
  missing from the source files.  Spec 6 lists them: an interpolation function from the
  raw value and the symbol table to a resolved value or an error; the reading of a
  resolved value as a mapping from variable names to values (spec 4.3, step 2); a
  coercion and a type check of one value against the type declared for its variable,
  which is found through the module tree and the module path (spec 4.3, steps 3 and 4).
  \<open>'e\<close> is the type of errors, \<open>'c\<close> of resolved configurations, \<open>'x\<close> of values.
\<close>

record ('iv, 'c, 'x, 't, 'e) collaborators =
  interpolate :: "'iv RawConfig \<Rightarrow> (string \<Rightarrow> string \<Rightarrow> 'x option) \<Rightarrow> 'e + 'c"
  variableBlock :: "'c option \<Rightarrow> 'e + (string \<times> 'x) list"
  coerce :: "'t \<Rightarrow> string list \<Rightarrow> string \<Rightarrow> 'x \<Rightarrow> 'e + 'x"
  typeCheck :: "'t \<Rightarrow> string list \<Rightarrow> string \<Rightarrow> 'x \<Rightarrow> 'e option"

text \<open>
  Modelled from the spec: the evaluation context is missing from the source files.  The
  state of a run is the two locals of \<^verbatim>\<open>EvalTree\<close> (\<open>config\<close>, nil at first, and the
  scratch mapping \<open>variables\<close>, an association list) and the variable-value table
  owned by the walker, keyed by module name and then by variable name (spec 4.3, step 5,
  and spec 6).
\<close>

record ('c, 'x) EvalState =
  config :: "'c option"
  variables :: "(string \<times> 'x) list"
  VariableTable :: "string \<Rightarrow> string \<Rightarrow> 'x option"

text \<open>
  Modelled from the spec: the coercion step (its \<^verbatim>\<open>Eval\<close> method is missing from the
  source files) converts each entry of the scratch mapping (spec 4.3, step 3); the
  first entry that cannot be converted fails the step.
\<close>

fun coerce_entries ::
  "(string \<Rightarrow> 'x \<Rightarrow> 'e + 'x) \<Rightarrow> (string \<times> 'x) list \<Rightarrow> 'e + (string \<times> 'x) list" where
  "coerce_entries f [] = Inr []"
| "coerce_entries f ((k, v) # kvs) =
     (case f k v of
        Inl e \<Rightarrow> Inl e
      | Inr v' \<Rightarrow>
          (case coerce_entries f kvs of
             Inl e \<Rightarrow> Inl e
           | Inr kvs' \<Rightarrow> Inr ((k, v') # kvs')))"

text \<open>
  Modelled from the spec: the type-check step (its \<^verbatim>\<open>Eval\<close> method is missing from
  the source files) validates each entry of the scratch mapping (spec 4.3, step 4); the
  first mismatch fails the step.
\<close>

fun check_entries :: "(string \<Rightarrow> 'x \<Rightarrow> 'e option) \<Rightarrow> (string \<times> 'x) list \<Rightarrow> 'e option" where
  "check_entries f [] = None"
| "check_entries f ((k, v) # kvs) =
     (case f k v of
        Some e \<Rightarrow> Some e
      | None \<Rightarrow> check_entries f kvs)"

text \<open>
  Modelled from the spec: the \<^verbatim>\<open>Eval\<close> methods of the node types and the walker that
  calls them are missing from the source files.  Spec 4.3 gives what each step does: the
  no-op does nothing; the interpolation resolves the raw value against the table and
  stores the result in \<open>config\<close>; the extraction populates the scratch mapping from
  it; the coercion and the type check work on the scratch mapping; the commit writes the
  entries of the scratch mapping into the table under the owning module.  A step returns
  the error it failed with, if any, and the state it leaves.  A sequence runs its steps
  in order and stops at the first failure, which it reports (spec 4.3: a failure at any
  step aborts the remaining steps).
\<close>

fun Eval ::
  "('iv, 'c, 'x, 't, 'e) collaborators \<Rightarrow> ('iv, 't) EvalNode \<Rightarrow> ('c, 'x) EvalState
     \<Rightarrow> 'e option \<times> ('c, 'x) EvalState"
and Eval_nodes ::
  "('iv, 'c, 'x, 't, 'e) collaborators \<Rightarrow> ('iv, 't) EvalNode list \<Rightarrow> ('c, 'x) EvalState
     \<Rightarrow> 'e option \<times> ('c, 'x) EvalState" where
  "Eval c EvalNoop s = (None, s)"
| "Eval c (EvalSequence nodes) s = Eval_nodes c nodes s"
| "Eval c (EvalInterpolate raw out) s =
     (case interpolate c raw (VariableTable s) of
        Inl e \<Rightarrow> (Some e, s)
      | Inr cfg \<Rightarrow> (None, s\<lparr>config := Some cfg\<rparr>))"
| "Eval c (EvalVariableBlock cfg vars) s =
     (case variableBlock c (config s) of
        Inl e \<Rightarrow> (Some e, s)
      | Inr kvs \<Rightarrow> (None, s\<lparr>variables := kvs @ variables s\<rparr>))"
| "Eval c (EvalCoerceMapVariable vars path tree) s =
     (case coerce_entries (coerce c tree path) (variables s) of
        Inl e \<Rightarrow> (Some e, s)
      | Inr kvs \<Rightarrow> (None, s\<lparr>variables := kvs\<rparr>))"
| "Eval c (EvalTypeCheckVariable vars path tree) s =
     (case check_entries (typeCheck c tree path) (variables s) of
        Some e \<Rightarrow> (Some e, s)
      | None \<Rightarrow> (None, s))"
| "Eval c (EvalSetVariables m vars) s =
     (None, s\<lparr>VariableTable :=
                 (VariableTable s)(m := VariableTable s m ++ map_of (variables s))\<rparr>)"
| "Eval_nodes c [] s = (None, s)"
| "Eval_nodes c (n # ns) s =
     (case Eval c n s of
        (Some e, s') \<Rightarrow> (Some e, s')
      | (None, s') \<Rightarrow> Eval_nodes c ns s')"

section \<open>Properties of the loops\<close>

lemma DependentOn_loop_filter:
  "DependentOn_loop f vars result = result @ filter (\<lambda>vn. vn \<noteq> []) (map f vars)"
  by (induction vars arbitrary: result) (simp_all add: Let_def)

lemma DestroyEdgeInclude_inner_member:
  "DestroyEdgeInclude_inner d names = (d \<in> set names)"
  by (induction names) auto

lemma DestroyEdgeInclude_outer_inter:
  "DestroyEdgeInclude_outer ds names = (set ds \<inter> set names \<noteq> {})"
  by (induction ds) (auto simp: DestroyEdgeInclude_inner_member)

lemma Eval_nodes_append:
  "Eval_nodes c (xs @ ys) s =
     (case Eval_nodes c xs s of
        (Some e, s') \<Rightarrow> (Some e, s')
      | (None, s') \<Rightarrow> Eval_nodes c ys s')"
  by (induction xs arbitrary: s) (auto split: prod.splits option.splits)

text \<open>None of the four steps before the commit writes to the variable-value table.\<close>

lemma Eval_interpolate_table:
  "Eval c (EvalInterpolate raw out) s = (r, s') \<Longrightarrow> VariableTable s' = VariableTable s"
  by (auto split: sum.splits)

lemma Eval_variableBlock_table:
  "Eval c (EvalVariableBlock cfg vars) s = (r, s') \<Longrightarrow> VariableTable s' = VariableTable s"
  by (auto split: sum.splits)

lemma Eval_coerce_table:
  "Eval c (EvalCoerceMapVariable vars path tree) s = (r, s') \<Longrightarrow> VariableTable s' = VariableTable s"
  by (auto split: sum.splits)

lemma Eval_typeCheck_table:
  "Eval c (EvalTypeCheckVariable vars path tree) s = (r, s') \<Longrightarrow> VariableTable s' = VariableTable s"
  by (auto split: option.splits)

lemma steps_before_commit_table:
  assumes "Eval_nodes c
             [EvalInterpolate raw out, EvalVariableBlock cfg vars,
              EvalCoerceMapVariable vars2 path tree, EvalTypeCheckVariable vars3 path2 tree2] s
           = (r, s')"
  shows "VariableTable s' = VariableTable s"
proof -
  obtain r1 s1 where e1: "Eval c (EvalInterpolate raw out) s = (r1, s1)"
    by (cases "Eval c (EvalInterpolate raw out) s")
  obtain r2 s2 where e2: "Eval c (EvalVariableBlock cfg vars) s1 = (r2, s2)"
    by (cases "Eval c (EvalVariableBlock cfg vars) s1")
  obtain r3 s3 where e3: "Eval c (EvalCoerceMapVariable vars2 path tree) s2 = (r3, s3)"
    by (cases "Eval c (EvalCoerceMapVariable vars2 path tree) s2")
  obtain r4 s4 where e4: "Eval c (EvalTypeCheckVariable vars3 path2 tree2) s3 = (r4, s4)"
    by (cases "Eval c (EvalTypeCheckVariable vars3 path2 tree2) s3")
  have t1: "VariableTable s1 = VariableTable s" using e1 by (rule Eval_interpolate_table)
  have t2: "VariableTable s2 = VariableTable s1" using e2 by (rule Eval_variableBlock_table)
  have t3: "VariableTable s3 = VariableTable s2" using e3 by (rule Eval_coerce_table)
  have t4: "VariableTable s4 = VariableTable s3" using e4 by (rule Eval_typeCheck_table)
  have "s' = s1 \<or> s' = s2 \<or> s' = s3 \<or> s' = s4"
    using assms e1 e2 e3 e4
    by (simp only: Eval_nodes.simps) (auto split: option.splits)
  then show ?thesis using t1 t2 t3 t4 by auto
qed

text \<open>
  When the four steps succeed, the commit runs and writes the scratch mapping under the
  vertex's module; no other module's entries change.
\<close>

lemma successful_steps_commit:
  assumes "Value n = Some raw"
    and "Eval_nodes c
           [EvalInterpolate raw local_config, EvalVariableBlock local_config local_variables,
            EvalCoerceMapVariable local_variables (ModulePath n) (ModuleTree n),
            EvalTypeCheckVariable local_variables (ModulePath n) (ModuleTree n)] s
         = (None, s1)"
  shows "Eval c (EvalTree n) s =
           (None, s1\<lparr>VariableTable :=
                       (VariableTable s)(Module n := VariableTable s (Module n) ++ map_of (variables s1))\<rparr>)"
proof -
  let ?pre = "[EvalInterpolate raw local_config, EvalVariableBlock local_config local_variables,
      EvalCoerceMapVariable local_variables (ModulePath n) (ModuleTree n),
      EvalTypeCheckVariable local_variables (ModulePath n) (ModuleTree n)]"
  have tbl: "VariableTable s1 = VariableTable s"
    using assms(2) by (rule steps_before_commit_table)
  have "EvalTree n = EvalSequence (?pre @ [EvalSetVariables (Module n) local_variables])"
    using assms(1) by (simp add: EvalTree_def)
  then have "Eval c (EvalTree n) s
      = Eval_nodes c (?pre @ [EvalSetVariables (Module n) local_variables]) s"
    by simp
  also have "\<dots> = Eval_nodes c [EvalSetVariables (Module n) local_variables] s1"
    unfolding Eval_nodes_append assms(2) by simp
  finally show ?thesis using tbl by simp
qed

section \<open>The destroy-edge decision\<close>

text \<open>
  C1.  For every candidate source vertex \<open>v\<close>, \<^verbatim>\<open>DestroyEdgeInclude(v)\<close> returns true
  if and only if \<open>v\<close> has the \<^verbatim>\<open>CountDependentOn\<close> capability and the names it returns
  share an element with this vertex's \<^verbatim>\<open>DependableName()\<close>.  A vertex without the
  capability, or with no matching name, is rejected.
\<close>

theorem DestroyEdgeInclude_iff:
  "DestroyEdgeInclude n v
     = (\<exists>cdo. CountDependentOn v = Some cdo \<and> set cdo \<inter> set (DependableName n) \<noteq> {})"
  by (simp add: DestroyEdgeInclude_def DestroyEdgeInclude_outer_inter split: option.split)

text \<open>
  The examples of spec 8 for the vertex of \<^verbatim>\<open>var.x\<close>: a source that declares
  \<^verbatim>\<open>{"var.x"}\<close> keeps the edge, one that declares \<^verbatim>\<open>{"var.y"}\<close> and one without the
  capability do not.
\<close>

theorem DestroyEdgeInclude_iff_witness:
  "let n = \<lparr>Variable = \<lparr>Variable_Name = ''x''\<rparr>, Module = ''child'',
             Value = (None :: unit RawConfig option), ModuleTree = (),
             ModulePath = [''root'', ''child'']\<rparr>
   in DestroyEdgeInclude n \<lparr>VertexName = ''aws_instance.web'', CountDependentOn = Some [''var.x'']\<rparr>
      \<and> \<not> DestroyEdgeInclude n
            \<lparr>VertexName = ''aws_instance.web'', CountDependentOn = Some [''var.y'']\<rparr>
      \<and> \<not> DestroyEdgeInclude n \<lparr>VertexName = ''aws_instance.web'', CountDependentOn = None\<rparr>"
  by (simp add: DestroyEdgeInclude_iff DependableName_def Name_def)

section \<open>A vertex without a value\<close>

text \<open>
  C2.  For a vertex whose raw value is absent, \<^verbatim>\<open>DependentOn()\<close> returns no name and
  \<^verbatim>\<open>EvalTree()\<close> returns the no-op node, whose run reports no error and leaves the
  state, the variable-value table included, as it was.
\<close>

theorem absent_value_no_dependencies_noop:
  "Value n = None \<Longrightarrow>
     DependentOn varNameForVar n = [] \<and> EvalTree n = EvalNoop \<and> Eval c (EvalTree n) s = (None, s)"
  by (simp add: DependentOn_def EvalTree_def)

theorem absent_value_no_dependencies_noop_witness:
  "let n = \<lparr>Variable = \<lparr>Variable_Name = ''region''\<rparr>, Module = ''root'',
             Value = (None :: string RawConfig option), ModuleTree = (), ModulePath = [''root'']\<rparr>;
       c = \<lparr>interpolate = (\<lambda>raw tbl. Inl ''InterpolationError''),
            variableBlock = (\<lambda>cfg :: (string \<times> string) list option. Inl ''no config''),
            coerce = (\<lambda>t p k v. Inr v),
            typeCheck = (\<lambda>t p k v. None)\<rparr>;
       s = \<lparr>config = None, variables = [],
            VariableTable = (\<lambda>m k. if m = ''root'' \<and> k = ''env'' then Some ''prod'' else None)\<rparr>
   in Value n = None \<and> DependentOn (\<lambda>v. ''var.'' @ v) n = [] \<and> EvalTree n = EvalNoop
      \<and> Eval c (EvalTree n) s = (None, s)"
  (is "let n = ?n; c = ?c; s = ?s in _")
proof -
  have h: "Value ?n = None" by simp
  show ?thesis
    unfolding Let_def
    using h absent_value_no_dependencies_noop [OF h, of "\<lambda>v. ''var.'' @ v" ?c ?s]
    by blast
qed

section \<open>The dependencies of a vertex with a value\<close>

text \<open>
  C3.  For a vertex whose raw value is present, \<^verbatim>\<open>DependentOn()\<close> returns the names
  that \<^verbatim>\<open>varNameForVar\<close> gives to the references of the raw value, in their order,
  without those for which it gives the empty string: such a reference is left out and
  no error is returned (the result is a list of names, with no error beside it).
\<close>

theorem DependentOn_present:
  "Value n = Some raw \<Longrightarrow>
     DependentOn varNameForVar n = filter (\<lambda>vn. vn \<noteq> []) (map varNameForVar (Variables raw))
     \<and> set (DependentOn varNameForVar n) = varNameForVar ` set (Variables raw) - {[]}"
  by (auto simp add: DependentOn_def DependentOn_loop_filter)

theorem DependentOn_present_witness:
  "let n = \<lparr>Variable = \<lparr>Variable_Name = ''region''\<rparr>, Module = ''child'',
             Value = Some \<lparr>Variables = [''env'', ''count.index'', ''zone'']\<rparr>,
             ModuleTree = (), ModulePath = [''root'', ''child'']\<rparr>;
       f = (\<lambda>v. if v = ''count.index'' then [] else ''var.'' @ v)
   in Value n = Some \<lparr>Variables = [''env'', ''count.index'', ''zone'']\<rparr>
      \<and> DependentOn f n = [''var.env'', ''var.zone'']
      \<and> set (DependentOn f n) = {''var.env'', ''var.zone''}"
  (is "let n = ?n; f = ?f in _")
proof -
  have h: "Value ?n = Some \<lparr>Variables = [''env'', ''count.index'', ''zone'']\<rparr>" by simp
  show ?thesis
    unfolding Let_def
    using h DependentOn_present [OF h, of ?f]
    by simp
qed

section \<open>The evaluation pipeline\<close>

text \<open>
  C4.  For a vertex whose raw value is present, \<^verbatim>\<open>EvalTree()\<close> returns a sequence of
  exactly five steps in this order: the interpolation of the raw value into the local
  \<^verbatim>\<open>config\<close>, the extraction of the variable block into the scratch mapping, the
  coercion and the type check of the scratch mapping with the vertex's module path and
  module tree, and the commit of the scratch mapping under the vertex's module.  The
  commit is the last step.
\<close>

theorem EvalTree_five_steps:
  "Value n = Some raw \<Longrightarrow>
     EvalTree n =
       EvalSequence
         [EvalInterpolate raw local_config,
          EvalVariableBlock local_config local_variables,
          EvalCoerceMapVariable local_variables (ModulePath n) (ModuleTree n),
          EvalTypeCheckVariable local_variables (ModulePath n) (ModuleTree n),
          EvalSetVariables (Module n) local_variables]
     \<and> (\<exists>nodes. EvalTree n = EvalSequence nodes \<and> length nodes = 5
            \<and> last nodes = EvalSetVariables (Module n) local_variables)"
  by (simp add: EvalTree_def)

theorem EvalTree_five_steps_witness:
  "let n = \<lparr>Variable = \<lparr>Variable_Name = ''region''\<rparr>, Module = ''child'',
             Value = Some \<lparr>Variables = [''env'']\<rparr>,
             ModuleTree = (), ModulePath = [''root'', ''child'']\<rparr>
   in Value n = Some \<lparr>Variables = [''env'']\<rparr>
      \<and> EvalTree n =
          EvalSequence
            [EvalInterpolate \<lparr>Variables = [''env'']\<rparr> local_config,
             EvalVariableBlock local_config local_variables,
             EvalCoerceMapVariable local_variables [''root'', ''child''] (),
             EvalTypeCheckVariable local_variables [''root'', ''child''] (),
             EvalSetVariables ''child'' local_variables]"
  (is "let n = ?n in _")
proof -
  have h: "Value ?n = Some \<lparr>Variables = [''env'']\<rparr>" by simp
  show ?thesis
    unfolding Let_def
    using h EvalTree_five_steps [OF h]
    by simp
qed

text \<open>
  C5.  If one of the steps 1 to 4 (interpolate, extract, coerce, type-check) fails, the
  run of the pipeline ends there: it reports that failure, the commit step is not
  performed, and the variable-value table is the one the run started with.
  The first four nodes of the pipeline are \<open>take 4 nodes\<close>; their run failing with
  \<open>e\<close> in state \<open>s'\<close> is the hypothesis, and the run of the whole pipeline then has
  the same outcome.
\<close>

theorem failed_step_commits_nothing:
  assumes "Value n = Some raw"
    and "EvalTree n = EvalSequence nodes"
    and "Eval_nodes c (take 4 nodes) s = (Some e, s')"
  shows "Eval c (EvalTree n) s = (Some e, s') \<and> VariableTable s' = VariableTable s"
proof -
  let ?pre = "[EvalInterpolate raw local_config, EvalVariableBlock local_config local_variables,
      EvalCoerceMapVariable local_variables (ModulePath n) (ModuleTree n),
      EvalTypeCheckVariable local_variables (ModulePath n) (ModuleTree n)]"
  have nodes: "nodes = ?pre @ [EvalSetVariables (Module n) local_variables]"
    using assms(1,2) by (simp add: EvalTree_def)
  then have pre: "take 4 nodes = ?pre" by simp
  have run: "Eval_nodes c ?pre s = (Some e, s')" using assms(3) pre by simp
  have "Eval_nodes c nodes s = (Some e, s')"
    unfolding nodes Eval_nodes_append run by simp
  then have whole: "Eval c (EvalTree n) s = (Some e, s')" using assms(2) by simp
  have "VariableTable s' = VariableTable s" using run by (rule steps_before_commit_table)
  with whole show ?thesis by simp
qed

text \<open>
  The failure scenario of spec 8: the value of \<^verbatim>\<open>var.region\<close> resolves to
  \<^verbatim>\<open>prod-west\<close> and the type check rejects it.
\<close>

theorem failed_step_commits_nothing_witness:
  "let n = \<lparr>Variable = \<lparr>Variable_Name = ''region''\<rparr>, Module = ''child'',
             Value = Some \<lparr>Variables = [''env'']\<rparr>,
             ModuleTree = (), ModulePath = [''root'', ''child'']\<rparr>;
       nodes = [EvalInterpolate \<lparr>Variables = [''env'']\<rparr> local_config,
                EvalVariableBlock local_config local_variables,
                EvalCoerceMapVariable local_variables [''root'', ''child''] (),
                EvalTypeCheckVariable local_variables [''root'', ''child''] (),
                EvalSetVariables ''child'' local_variables];
       c = \<lparr>interpolate = (\<lambda>raw tbl. Inr [(''region'', ''prod-west'')]),
            variableBlock = (\<lambda>cfg. case cfg of None \<Rightarrow> Inl ''no config'' | Some kvs \<Rightarrow> Inr kvs),
            coerce = (\<lambda>t p k v. Inr v),
            typeCheck = (\<lambda>t p k v. if v = ''prod-west'' then Some ''TypeCheckError'' else None)\<rparr>;
       s = \<lparr>config = None, variables = [],
            VariableTable = (\<lambda>m k. if m = ''root'' \<and> k = ''env'' then Some ''prod'' else None)\<rparr>;
       s' = \<lparr>config = Some [(''region'', ''prod-west'')], variables = [(''region'', ''prod-west'')],
             VariableTable = (\<lambda>m k. if m = ''root'' \<and> k = ''env'' then Some ''prod'' else None)\<rparr>
   in Value n = Some \<lparr>Variables = [''env'']\<rparr>
      \<and> EvalTree n = EvalSequence nodes
      \<and> Eval_nodes c (take 4 nodes) s = (Some ''TypeCheckError'', s')
      \<and> Eval c (EvalTree n) s = (Some ''TypeCheckError'', s')
      \<and> VariableTable s' = VariableTable s"
  (is "let n = ?n; nodes = ?nodes; c = ?c; s = ?s; s' = ?s' in _")
proof -
  have h1: "Value ?n = Some \<lparr>Variables = [''env'']\<rparr>" by simp
  have h2: "EvalTree ?n = EvalSequence ?nodes" by (simp add: EvalTree_def)
  have h3: "Eval_nodes ?c (take 4 ?nodes) ?s = (Some ''TypeCheckError'', ?s')" by simp
  show ?thesis
    unfolding Let_def
    using h1 h2 h3 failed_step_commits_nothing [OF h1 h2 h3]
    by blast
qed

section \<open>Flattening\<close>

text \<open>
  C6.  For a flattened vertex bound to the path \<open>p\<close>: if \<open>p\<close> has more than two
  segments, \<^verbatim>\<open>DependentOn()\<close> returns the base vertex's names prefixed with the
  rendering of the parent module's path (\<open>p\<close> without its last segment), that is each
  name \<open>d\<close> as \<^verbatim>\<open>prefix.d\<close> for a non-empty rendering, and \<^verbatim>\<open>Path()\<close> is \<open>p\<close>
  without its last segment; if \<open>p\<close> has two segments or fewer, the names are the base
  vertex's and \<^verbatim>\<open>Path()\<close> is empty.
\<close>

theorem Flat_DependentOn_Path:
  "(length (PathValue n) > 2 \<longrightarrow>
      Flat_DependentOn mps varNameForVar n
        = modulePrefixList (DependentOn varNameForVar (Embedded n)) (mps (butlast (PathValue n)))
      \<and> (mps (butlast (PathValue n)) \<noteq> [] \<longrightarrow>
           Flat_DependentOn mps varNameForVar n
             = map (\<lambda>d. mps (butlast (PathValue n)) @ ''.'' @ d)
                 (DependentOn varNameForVar (Embedded n)))
      \<and> Flat_Path n = butlast (PathValue n))
   \<and> (length (PathValue n) \<le> 2 \<longrightarrow>
      Flat_DependentOn mps varNameForVar n = DependentOn varNameForVar (Embedded n)
      \<and> Flat_Path n = [])"
  by (simp add: Flat_DependentOn_def Flat_Path_def modulePrefixList_def butlast_conv_take Let_def)

text \<open>
  The two paths of spec 8: at \<^verbatim>\<open>["root", "child", "grandchild"]\<close> the names carry the
  prefix of \<^verbatim>\<open>["root", "child"]\<close>, which is the reported path; at
  \<^verbatim>\<open>["root", "child"]\<close> they are unprefixed and the reported path is empty.
\<close>

theorem Flat_DependentOn_Path_witness:
  "let b = \<lparr>Variable = \<lparr>Variable_Name = ''region''\<rparr>, Module = ''grandchild'',
             Value = Some \<lparr>Variables = [''env'']\<rparr>, ModuleTree = (), ModulePath = []\<rparr>;
       f = (\<lambda>v. if v = ''count.index'' then [] else ''var.'' @ v)
   in length [''root'', ''child'', ''grandchild''] > 2
      \<and> modulePrefixStr (butlast [''root'', ''child'', ''grandchild'']) \<noteq> []
      \<and> Flat_DependentOn modulePrefixStr f
           \<lparr>Embedded = b, PathValue = [''root'', ''child'', ''grandchild'']\<rparr>
          = [''root.child.var.env'']
      \<and> Flat_Path \<lparr>Embedded = b, PathValue = [''root'', ''child'', ''grandchild'']\<rparr>
          = [''root'', ''child'']
      \<and> length [''root'', ''child''] \<le> 2
      \<and> Flat_DependentOn modulePrefixStr f \<lparr>Embedded = b, PathValue = [''root'', ''child'']\<rparr>
          = [''var.env'']
      \<and> Flat_Path \<lparr>Embedded = b, PathValue = [''root'', ''child'']\<rparr> = []"
  (is "let b = ?b; f = ?f in _")
proof -
  have d: "DependentOn ?f ?b = [''var.env'']" by (simp add: DependentOn_def)
  show ?thesis
    unfolding Let_def
    using d
      Flat_DependentOn_Path [of "\<lparr>Embedded = ?b, PathValue = [''root'', ''child'', ''grandchild'']\<rparr>"
        modulePrefixStr ?f]
      Flat_DependentOn_Path [of "\<lparr>Embedded = ?b, PathValue = [''root'', ''child'']\<rparr>"
        modulePrefixStr ?f]
    by (simp add: modulePrefixList_def)
qed

text \<open>
  C7, as the code has it.  The name of a flattened vertex is built from the whole bound
  path, the variable's own module segment included: it is the rendering of
  \<^verbatim>\<open>PathValue\<close>, a dot and the base name \<^verbatim>\<open>var.<name>\<close>.  It is \<^verbatim>\<open>Path()\<close> that
  leaves the last segment out, when the bound path has more than two segments, and
  is empty otherwise.
\<close>

theorem Flat_Name_full_path:
  "Flat_Name mps n = mps (PathValue n) @ ''.'' @ ''var.'' @ Variable_Name (Variable (Embedded n))
   \<and> Flat_Path n = (if length (PathValue n) > 2 then butlast (PathValue n) else [])"
  by (simp add: Flat_Name_def Name_def Flat_Path_def butlast_conv_take)

text \<open>
  At the path \<^verbatim>\<open>["root", "child", "grandchild"]\<close> the name of the flattened vertex of
  \<^verbatim>\<open>var.x\<close> is not the one built from the calling module's path
  \<^verbatim>\<open>["root", "child"]\<close>.
\<close>

theorem Flat_Name_parent_path_counterexample:
  "Flat_Name modulePrefixStr
     \<lparr>Embedded = \<lparr>Variable = \<lparr>Variable_Name = ''x''\<rparr>, Module = ''grandchild'',
                  Value = (None :: unit RawConfig option), ModuleTree = (),
                  ModulePath = [''root'', ''child'', ''grandchild'']\<rparr>,
      PathValue = [''root'', ''child'', ''grandchild'']\<rparr>
   \<noteq> modulePrefixStr (butlast [''root'', ''child'', ''grandchild'']) @ ''.'' @ ''var.x''"
  by (simp add: Flat_Name_def Name_def)

section \<open>Address rendering\<close>

text \<open>
  C8.  \<^verbatim>\<open>Call(n).String()\<close> is \<^verbatim>\<open>"module." + n\<close>; an instance with \<^verbatim>\<open>NoKey\<close>
  renders as its call, an instance with a present key as its call's string followed by
  the key's rendering; an output renders as its instance's string, a dot and the output
  name; \<^verbatim>\<open>Call("db").Instance(NoKey).String()\<close> is \<^verbatim>\<open>"module.db"\<close>.
\<close>

theorem address_rendering:
  "ModuleCall_String (ModuleCall n) = ''module.'' @ n
   \<and> ModuleCallInstance_String keyString (Instance c NoKey) = ModuleCall_String c
   \<and> ModuleCallInstance_String keyString (Instance c (Some k)) = ModuleCall_String c @ keyString k
   \<and> ModuleCallOutput_String keyString (Output i outp)
       = ModuleCallInstance_String keyString i @ ''.'' @ outp
   \<and> ModuleCallInstance_String keyString (Instance (ModuleCall ''db'') NoKey) = ''module.db''"
  by (simp add: ModuleCall_String_def ModuleCallInstance_String_def ModuleCallOutput_String_def
      Instance_def Output_def NoKey_def)

section \<open>Targeting\<close>

text \<open>
  C9.  \<^verbatim>\<open>RemoveIfNotTargeted()\<close> returns true for every configuration variable vertex,
  whatever its declaration, raw value, module and path.
\<close>

theorem RemoveIfNotTargeted_always:
  "RemoveIfNotTargeted n = True"
  by (simp add: RemoveIfNotTargeted_def)

section \<open>The destroy-edge decision of a flattened vertex\<close>

text \<open>
  C10.  The destroy-edge decision of a flattened vertex is the promoted method of the
  embedded base vertex: it compares the names of \<^verbatim>\<open>CountDependentOn()\<close> with the base
  vertex's \<^verbatim>\<open>DependableName()\<close>, the one name \<^verbatim>\<open>var.<name>\<close>, and not with the
  flattened name.  A source vertex that declares exactly the flattened vertex's own
  \<^verbatim>\<open>DependableName()\<close> is rejected, whatever the rendering of the path.
\<close>

theorem Flat_DestroyEdgeInclude_base:
  "Flat_DestroyEdgeInclude n v
     = (\<exists>cdo. CountDependentOn v = Some cdo \<and> set cdo \<inter> set (DependableName (Embedded n)) \<noteq> {})
   \<and> DependableName (Embedded n) = [''var.'' @ Variable_Name (Variable (Embedded n))]
   \<and> (CountDependentOn v = Some (Flat_DependableName mps n) \<longrightarrow> \<not> Flat_DestroyEdgeInclude n v)"
proof -
  have "length (Flat_Name mps n) \<noteq> length (Name (Embedded n))"
    by (simp add: Flat_Name_def)
  then have "Flat_Name mps n \<noteq> Name (Embedded n)" by auto
  then show ?thesis
    by (auto simp add: Flat_DestroyEdgeInclude_def DestroyEdgeInclude_def
        DestroyEdgeInclude_outer_inter DependableName_def Flat_DependableName_def Name_def
        split: option.split)
qed

theorem Flat_DestroyEdgeInclude_base_witness:
  "let n = \<lparr>Embedded = \<lparr>Variable = \<lparr>Variable_Name = ''x''\<rparr>, Module = ''grandchild'',
                        Value = (None :: unit RawConfig option), ModuleTree = (),
                        ModulePath = [''root'', ''child'', ''grandchild'']\<rparr>,
            PathValue = [''root'', ''child'', ''grandchild'']\<rparr>;
       v = \<lparr>VertexName = ''aws_instance.web'',
            CountDependentOn = Some [''root.child.grandchild.var.x'']\<rparr>
   in CountDependentOn v = Some (Flat_DependableName modulePrefixStr n)
      \<and> \<not> Flat_DestroyEdgeInclude n v
      \<and> Flat_DestroyEdgeInclude n \<lparr>VertexName = ''aws_instance.web'', CountDependentOn = Some [''var.x'']\<rparr>"
  (is "let n = ?n; v = ?v in _")
proof -
  have h: "CountDependentOn ?v = Some (Flat_DependableName modulePrefixStr ?n)"
    by (simp add: Flat_DependableName_def Flat_Name_def Name_def)
  have k: "Flat_DestroyEdgeInclude ?n
             \<lparr>VertexName = ''aws_instance.web'', CountDependentOn = Some [''var.x'']\<rparr>"
    by (simp add: Flat_DestroyEdgeInclude_def DestroyEdgeInclude_def DependableName_def Name_def)
  show ?thesis
    unfolding Let_def
    using h k Flat_DestroyEdgeInclude_base [of ?n ?v modulePrefixStr]
    by blast
qed

end
